theory Spec2Isabelle
  imports Main "HOL-Library.AList"
begin

section \<open>PROS depot: data model\<close>

text \<open>
  The action is written in TypeScript. Strings are \<^typ>\<open>string\<close>, JavaScript
  numbers that hold identifiers and HTTP status codes are \<^typ>\<open>int\<close>, a value that
  may be \<^verbatim>\<open>null\<close> or \<^verbatim>\<open>undefined\<close> is an \<^typ>\<open>'a option\<close>, and a
  thrown exception is the left summand of a sum type.
\<close>

datatype error = Error string | TypeError string

subsection \<open>schema.ts\<close>

record Metadata =
  location :: string

record BaseTemplate =
  metadata :: Metadata
  name :: string
  py_object :: string
  supported_kernels :: string
  target :: string
  version :: string

type_synonym Depot = "BaseTemplate list"

text \<open>
  The \<^verbatim>\<open>py/state\<close> of an external template. Its \<^verbatim>\<open>metadata\<close> is a
  \<^verbatim>\<open>z.record(z.string(), z.any())\<close>: the type of the values is a parameter.
\<close>

record 'any PyState =
  metadata :: "(string \<times> 'any) list"
  name :: string
  supported_kernels :: string
  system_files :: "string list"
  target :: string
  user_files :: "string list"
  version :: string

record 'any ExternalTemplate =
  py_object :: string
  py_state :: "'any PyState"

subsection \<open>utils.ts: releases and downloadable zips\<close>

text \<open>
  Of a release and its assets (types of the GitHub client) the fields the action
  reads. The asset's \<^verbatim>\<open>id\<close> is the field \<open>id_asset\<close>.
\<close>

record Asset =
  id_asset :: int
  name :: string
  browser_download_url :: string
  updated_at :: string

record Release =
  assets :: "Asset list"
  prerelease :: bool

record DownloadableZip =
  asset_id :: int
  download_url :: string
  updated_at :: string
  prerelease :: bool
  result :: "BaseTemplate option"

text \<open>
  A \<^verbatim>\<open>Date\<close> is its time value, in milliseconds since the epoch; \<open>None\<close> is
  the invalid date, whose time value is \<^verbatim>\<open>NaN\<close>. The constructor
  \<^verbatim>\<open>new Date(string)\<close> belongs to the language: the functions that call it take
  it as the parameter \<open>Date_new\<close>, and \<open>new_Date\<close> below is the constructor on
  the time stamps of the GitHub API.
\<close>

type_synonym Date = "int option"

text \<open>
  \<^verbatim>\<open>a > b\<close> on two dates compares the time values; a comparison with
  \<^verbatim>\<open>NaN\<close> is false.
\<close>

fun Date_gt :: "Date \<Rightarrow> Date \<Rightarrow> bool" where
  "Date_gt (Some a) (Some b) = (b < a)"
| "Date_gt _ _ = False"

text \<open>
  A JavaScript \<^verbatim>\<open>Map\<close> is a list of entries with distinct keys, in insertion order:
  \<^verbatim>\<open>set\<close> on a key that is present replaces the value in place.
\<close>

type_synonym ('k, 'v) Map = "('k \<times> 'v) list"

definition Map_new :: "('k \<times> 'v) list \<Rightarrow> ('k, 'v) Map" where
  "Map_new entries = foldl (\<lambda>m (k, v). AList.update k v m) [] entries"

definition Map_get :: "('k, 'v) Map \<Rightarrow> 'k \<Rightarrow> 'v option" where
  "Map_get m k = map_of m k"

definition Map_delete :: "('k, 'v) Map \<Rightarrow> 'k \<Rightarrow> ('k, 'v) Map" where
  "Map_delete m k = AList.delete k m"

definition Map_size :: "('k, 'v) Map \<Rightarrow> nat" where
  "Map_size m = length m"

text \<open>\<^verbatim>\<open>String.prototype.endsWith\<close> with the end position at the string's length.\<close>

definition endsWith :: "string \<Rightarrow> string \<Rightarrow> bool" where
  "endsWith s searchString =
     (if length s < length searchString then False
      else drop (length s - length searchString) s = searchString)"

definition getDownloadableZips :: "Release \<Rightarrow> DownloadableZip list" where
  "getDownloadableZips release =
     map (\<lambda>asset. \<lparr>asset_id = id_asset asset,
                   download_url = browser_download_url asset,
                   updated_at = Asset.updated_at asset,
                   prerelease = Release.prerelease release,
                   result = None\<rparr>)
       (filter (\<lambda>asset. endsWith (Asset.name asset) ''.zip'') (assets release))"

definition hasBeenUpdatedAfter :: "(string \<Rightarrow> Date) \<Rightarrow> DownloadableZip \<Rightarrow> Date \<Rightarrow> bool" where
  "hasBeenUpdatedAfter Date_new zip' target_date =
     Date_gt (Date_new (DownloadableZip.updated_at zip')) target_date"

definition convertExternalTemplateToBaseTemplate ::
    "DownloadableZip \<Rightarrow> 'any ExternalTemplate \<Rightarrow> BaseTemplate" where
  "convertExternalTemplateToBaseTemplate zip' external_template =
     (let template_data = py_state external_template
      in \<lparr>BaseTemplate.metadata = \<lparr>location = download_url zip'\<rparr>,
          BaseTemplate.name = PyState.name template_data,
          BaseTemplate.py_object = ''pros.conductor.templates.base_template.BaseTemplate'',
          BaseTemplate.supported_kernels = PyState.supported_kernels template_data,
          BaseTemplate.target = PyState.target template_data,
          BaseTemplate.version = PyState.version template_data\<rparr>)"

definition getPreviousResult ::
    "DownloadableZip \<Rightarrow> (string, BaseTemplate) Map \<Rightarrow> BaseTemplate option" where
  "getPreviousResult zip' depot_map = Map_get depot_map (download_url zip')"

definition applyPreviousResult ::
    "(string \<Rightarrow> Date) \<Rightarrow> DownloadableZip \<Rightarrow> (string, BaseTemplate) Map \<Rightarrow> Date
       \<Rightarrow> DownloadableZip" where
  "applyPreviousResult Date_new zip' depot_map depot_last_updated =
     zip'\<lparr>result :=
       (if hasBeenUpdatedAfter Date_new zip' depot_last_updated then None
        else getPreviousResult zip' depot_map)\<rparr>"

text \<open>
  \<^verbatim>\<open>IncludeStrategy\<close> is a union of three string literals; at run time its values
  are strings.
\<close>

type_synonym IncludeStrategy = string

definition getIncludeStrategy :: "string \<Rightarrow> error + IncludeStrategy" where
  "getIncludeStrategy input =
     (if input = ''all'' \<or> input = ''stable-only'' \<or> input = ''prerelease-only''
      then Inr input
      else Inl (Error (''Invalid include strategy: '' @ input)))"

definition shouldIncludeZip :: "DownloadableZip \<Rightarrow> IncludeStrategy \<Rightarrow> bool" where
  "shouldIncludeZip zip' include_strategy =
     (if include_strategy = ''stable-only'' then \<not> DownloadableZip.prerelease zip'
      else if include_strategy = ''prerelease-only'' then DownloadableZip.prerelease zip'
      else True)"

subsection \<open>utils.ts: repository identifiers\<close>

text \<open>
  \<^verbatim>\<open>String.prototype.split\<close> with a separator of one character: the pieces between
  the occurrences of the separator, so that a string without it is its only piece.
\<close>

fun String_split :: "char \<Rightarrow> string \<Rightarrow> string list" where
  "String_split sep [] = [[]]"
| "String_split sep (c # cs) =
     (if c = sep then [] # String_split sep cs
      else (case String_split sep cs of
              [] \<Rightarrow> [[c]]
            | piece # pieces \<Rightarrow> (c # piece) # pieces))"

text \<open>Reading an array at an index: \<^verbatim>\<open>undefined\<close> past the end.\<close>

definition Array_at :: "'a list \<Rightarrow> nat \<Rightarrow> 'a option" where
  "Array_at xs i = (if i < length xs then Some (xs ! i) else None)"

text \<open>
  The fields are declared \<^verbatim>\<open>string\<close>; the destructuring
  \<^verbatim>\<open>const [owner, repo] = ...\<close> binds \<^verbatim>\<open>undefined\<close> to a name whose position
  is past the end of the array, hence the options.
\<close>

record RepositoryIdentifier =
  owner :: "string option"
  repo :: "string option"

definition toRepositoryIdentifier :: "string \<Rightarrow> error + RepositoryIdentifier" where
  "toRepositoryIdentifier owner_and_repo_name =
     (if CHR ''/'' \<notin> set owner_and_repo_name
      then Inl (Error (''Invalid repository name: '' @ owner_and_repo_name))
      else (let parts = String_split CHR ''/'' owner_and_repo_name
            in Inr \<lparr>owner = Array_at parts 0, repo = Array_at parts 1\<rparr>))"

subsection \<open>utils.ts: the commit message\<close>

text \<open>
  The loop of \<^verbatim>\<open>getCommitMessage\<close> over the new depot; its state is the map of the old
  depot and the two counters. Both items of a comparison have the keys of the schema in
  the schema's order, so \<^verbatim>\<open>JSON.stringify\<close> gives two different texts exactly when
  the items differ.
\<close>

fun getCommitMessage_loop ::
    "Depot \<Rightarrow> (string, BaseTemplate) Map \<times> nat \<times> nat \<Rightarrow> (string, BaseTemplate) Map \<times> nat \<times> nat" where
  "getCommitMessage_loop [] state = state"
| "getCommitMessage_loop (new_item # rest) (old_depot_map, added_count, updated_count) =
     (let l = location (BaseTemplate.metadata new_item)
      in case Map_get old_depot_map l of
           None \<Rightarrow>
             getCommitMessage_loop rest (Map_delete old_depot_map l, added_count + 1, updated_count)
         | Some old_item \<Rightarrow>
             if old_item \<noteq> new_item
             then getCommitMessage_loop rest (Map_delete old_depot_map l, added_count, updated_count + 1)
             else getCommitMessage_loop rest (Map_delete old_depot_map l, added_count, updated_count))"

text \<open>The three counts: added, updated, removed.\<close>

definition getCommitMessage_counts :: "Depot \<Rightarrow> Depot \<Rightarrow> nat \<times> nat \<times> nat" where
  "getCommitMessage_counts old_depot new_depot =
     (let old_depot_map = Map_new (map (\<lambda>item. (location (BaseTemplate.metadata item), item)) old_depot)
      in case getCommitMessage_loop new_depot (old_depot_map, 0, 0) of
           (old_depot_map', added_count, updated_count) \<Rightarrow>
             (added_count, updated_count, Map_size old_depot_map'))"

text \<open>
  Reading \<^verbatim>\<open>new_depot[0].version\<close> of an empty depot throws a
  \<^verbatim>\<open>TypeError\<close>.
\<close>

definition getCommitMessage :: "Depot \<Rightarrow> Depot \<Rightarrow> error + string" where
  "getCommitMessage old_depot new_depot =
     (case getCommitMessage_counts old_depot new_depot of
        (added_count, updated_count, removed_count) \<Rightarrow>
          if added_count = 1 \<and> updated_count = 0 \<and> removed_count = 0
          then (case Array_at new_depot 0 of
                  None \<Rightarrow> Inl (TypeError ''Cannot read properties of undefined'')
                | Some first \<Rightarrow> Inr (''Release version '' @ BaseTemplate.version first))
          else Inr ''Update one or more version(s)'')"

subsection \<open>main.ts: the candidates of a run\<close>

record FileContent =
  sha :: string
  content :: string
  last_modified :: Date

text \<open>
  The part of \<^verbatim>\<open>run\<close> from the depot file it has read and the releases it has listed
  to the list \<^verbatim>\<open>zips\<close>. \<open>curr_depot_file\<close> is the result of
  \<^verbatim>\<open>getFileContent\<close>, null when the file could not be read. \<^verbatim>\<open>parseDepot\<close>
  rests on \<^verbatim>\<open>JSON.parse\<close> and on the schema validator, and is a parameter: it
  returns null for a content that is not a depot.
\<close>

definition run_zips ::
    "(string \<Rightarrow> Date) \<Rightarrow> (string \<Rightarrow> Depot option) \<Rightarrow> IncludeStrategy \<Rightarrow> FileContent option
       \<Rightarrow> Release list \<Rightarrow> DownloadableZip list" where
  "run_zips Date_new parseDepot include_strategy curr_depot_file releases =
     (let curr_depot_last_updated =
            (case curr_depot_file of None \<Rightarrow> Some 0 | Some file \<Rightarrow> last_modified file);
          curr_depot =
            (case parseDepot (case curr_depot_file of None \<Rightarrow> ''[]'' | Some file \<Rightarrow> content file) of
               None \<Rightarrow> []
             | Some depot \<Rightarrow> depot);
          curr_depot_map =
            Map_new (map (\<lambda>item. (location (BaseTemplate.metadata item), item)) curr_depot)
      in map (\<lambda>zip'. applyPreviousResult Date_new zip' curr_depot_map curr_depot_last_updated)
           (filter (\<lambda>zip'. \<not> (hasBeenUpdatedAfter Date_new zip' curr_depot_last_updated
                              \<and> getPreviousResult zip' curr_depot_map = None
                              \<and> curr_depot_file \<noteq> None))
              (filter (\<lambda>zip'. shouldIncludeZip zip' include_strategy)
                 (concat (map getDownloadableZips releases)))))"

subsection \<open>main.ts: publishing\<close>

text \<open>
  What a call of the GitHub client throws: whether it is an \<^verbatim>\<open>Error\<close>, and its
  \<^verbatim>\<open>status\<close> when it has one that is a number.
\<close>

record Thrown =
  instanceof_Error :: bool
  status_number :: "int option"

datatype tree_entry = Tree_entry string string string string

text \<open>
  The requests \<^verbatim>\<open>pushFile\<close> sends, with their parameters in the order: owner, repo,
  then \<^verbatim>\<open>branch, path, message, content, sha\<close> for a file update,
  \<^verbatim>\<open>base_tree, tree\<close> for a tree, \<^verbatim>\<open>message, tree, parents\<close> for a commit and
  \<^verbatim>\<open>ref, sha\<close> for a reference.
\<close>

datatype request =
    GetBranch "string option" "string option" string
  | CreateOrUpdateFileContents "string option" "string option" string string string string "string option"
  | CreateTree "string option" "string option" "string option" "tree_entry list"
  | CreateCommit "string option" "string option" string string "string list"
  | CreateRef "string option" "string option" string string

text \<open>
  The client answers a request in a state \<open>'w\<close> of the remote repositories: it throws or
  returns, and the state moves on. Of a response \<^verbatim>\<open>pushFile\<close> reads
  \<^verbatim>\<open>data.sha\<close> only, which is the value returned here. The base64 encoding of the
  file's content is the parameter \<open>base64_encode\<close>. The function returns its boolean with the
  requests it has sent, in order. Log lines are left out.
\<close>

type_synonym 'w Octokit = "request \<Rightarrow> 'w \<Rightarrow> (Thrown + string) \<times> 'w"

definition is_not_found :: "Thrown \<Rightarrow> bool" where
  "is_not_found error = (instanceof_Error error \<and> status_number error = Some 404)"

definition pushFile_catch ::
    "'w Octokit \<Rightarrow> string option \<Rightarrow> string option \<Rightarrow> string \<Rightarrow> string \<Rightarrow> string \<Rightarrow> string
       \<Rightarrow> Thrown \<Rightarrow> request list \<Rightarrow> 'w \<Rightarrow> (bool \<times> request list) \<times> 'w" where
  "pushFile_catch octokit owner' repo' branch path content' commit_message error sent w =
     (if is_not_found error
      then (let create_tree = CreateTree owner' repo' None [Tree_entry path ''100644'' ''blob'' content']
            in case octokit create_tree w of
                 (Inl _, w1) \<Rightarrow> ((False, sent @ [create_tree]), w1)
               | (Inr treeSHA, w1) \<Rightarrow>
                   (let create_commit = CreateCommit owner' repo' commit_message treeSHA []
                    in case octokit create_commit w1 of
                         (Inl _, w2) \<Rightarrow> ((False, sent @ [create_tree, create_commit]), w2)
                       | (Inr newCommit, w2) \<Rightarrow>
                           (let create_ref = CreateRef owner' repo' (''refs/heads/'' @ branch) newCommit
                            in case octokit create_ref w2 of
                                 (Inl _, w3) \<Rightarrow>
                                   ((False, sent @ [create_tree, create_commit, create_ref]), w3)
                               | (Inr _, w3) \<Rightarrow>
                                   ((True, sent @ [create_tree, create_commit, create_ref]), w3))))
      else ((False, sent), w))"

definition pushFile ::
    "'w Octokit \<Rightarrow> (string \<Rightarrow> string) \<Rightarrow> RepositoryIdentifier \<Rightarrow> string \<Rightarrow> string \<Rightarrow> string
       \<Rightarrow> string \<Rightarrow> string option \<Rightarrow> 'w \<Rightarrow> (bool \<times> request list) \<times> 'w" where
  "pushFile octokit base64_encode rid branch path content' commit_message old_sha w =
     (let owner' = RepositoryIdentifier.owner rid;
          repo' = RepositoryIdentifier.repo rid;
          get_branch = GetBranch owner' repo' branch
      in case octokit get_branch w of
           (Inl error, w1) \<Rightarrow>
             pushFile_catch octokit owner' repo' branch path content' commit_message error
               [get_branch] w1
         | (Inr _, w1) \<Rightarrow>
             (let update = CreateOrUpdateFileContents owner' repo' branch path commit_message
                             (base64_encode content') old_sha
              in case octokit update w1 of
                   (Inl error, w2) \<Rightarrow>
                     pushFile_catch octokit owner' repo' branch path content' commit_message error
                       [get_branch, update] w2
                 | (Inr _, w2) \<Rightarrow> ((True, [get_branch, update]), w2)))"

subsection \<open>main.ts: earlier variants\<close>

text \<open>
  \<^verbatim>\<open>main.ts\<close> holds variants of two functions from before they moved to
  \<^verbatim>\<open>utils.ts\<close>. Its \<^verbatim>\<open>toRepositoryIdentifier\<close> does not look for the
  separator and throws nothing. Its \<^verbatim>\<open>getCommitMessage\<close> takes the difference of
  the two lengths for the number of updates, and writes that number into the message.
\<close>

definition toRepositoryIdentifier_main :: "string \<Rightarrow> RepositoryIdentifier" where
  "toRepositoryIdentifier_main owner_and_repo_name =
     (let parts = String_split CHR ''/'' owner_and_repo_name
      in \<lparr>owner = Array_at parts 0, repo = Array_at parts 1\<rparr>)"

text \<open>The decimal digits of an integer, as a template literal writes it.\<close>

fun nat_toString :: "nat \<Rightarrow> string" where
  "nat_toString n =
     (if n < 10 then [''0123456789'' ! n]
      else nat_toString (n div 10) @ [''0123456789'' ! (n mod 10)])"

declare nat_toString.simps [simp del]

definition Number_toString :: "int \<Rightarrow> string" where
  "Number_toString i =
     (if i < 0 then CHR ''-'' # nat_toString (nat (- i)) else nat_toString (nat i))"

definition getCommitMessage_main :: "Depot \<Rightarrow> Depot \<Rightarrow> error + string" where
  "getCommitMessage_main old_depot new_depot =
     (let updated_count = int (length new_depot) - int (length old_depot);
          old_depot_list = map (\<lambda>item. location (BaseTemplate.metadata item)) old_depot;
          added_templates =
            filter (\<lambda>item. location (BaseTemplate.metadata item) \<notin> set old_depot_list) new_depot
      in if length added_templates = 1
         then (case Array_at added_templates 0 of
                 None \<Rightarrow> Inl (TypeError ''Cannot read properties of undefined'')
               | Some added \<Rightarrow> Inr (''Release version '' @ BaseTemplate.version added))
         else Inr (''Update '' @ Number_toString updated_count @ '' version(s)''))"

subsection \<open>The Date constructor\<close>

text \<open>
  \<^verbatim>\<open>new Date(string)\<close> on a date-time string in UTC: \<^verbatim>\<open>YYYY-MM-DDTHH:mm:ss\<close>, an
  optional fraction of a second, and \<^verbatim>\<open>Z\<close>. These are the time stamps the GitHub
  API sends. The action runs on Node, whose engine reads any number of digits in the
  fraction and keeps the first three: a time value counts whole milliseconds. The time
  value is computed as the language defines it (\<^verbatim>\<open>MakeDay\<close>, \<^verbatim>\<open>MakeTime\<close>,
  \<^verbatim>\<open>MakeDate\<close>). What the constructor does with a string of another form, or with a
  field out of its range, is left to the parameter \<open>other_formats\<close>.
\<close>

text \<open>The value of a decimal digit, from its character code: the digits are 48 to 57.\<close>

definition digit_value :: "char \<Rightarrow> nat option" where
  "digit_value c =
     (let code = (of_char c :: nat)
      in if 48 \<le> code \<and> code \<le> 57 then Some (code - 48) else None)"

text \<open>The number a string of decimal digits writes, after the digits read so far.\<close>

fun digits_value :: "nat \<Rightarrow> string \<Rightarrow> nat option" where
  "digits_value acc [] = Some acc"
| "digits_value acc (c # cs) =
     (case digit_value c of None \<Rightarrow> None | Some d \<Rightarrow> digits_value (10 * acc + d) cs)"

definition InLeapYear :: "int \<Rightarrow> bool" where
  "InLeapYear y = ((y mod 4 = 0 \<and> y mod 100 \<noteq> 0) \<or> y mod 400 = 0)"

definition DayFromYear :: "int \<Rightarrow> int" where
  "DayFromYear y =
     365 * (y - 1970) + (y - 1969) div 4 - (y - 1901) div 100 + (y - 1601) div 400"

definition DaysInMonth :: "int \<Rightarrow> nat \<Rightarrow> nat" where
  "DaysInMonth y m =
     (if m = 2 then (if InLeapYear y then 29 else 28)
      else if m = 4 \<or> m = 6 \<or> m = 9 \<or> m = 11 then 30 else 31)"

definition DaysBeforeMonth :: "int \<Rightarrow> nat \<Rightarrow> nat" where
  "DaysBeforeMonth y m = sum_list (map (DaysInMonth y) [1..<m])"

text \<open>Months and days of the month count from one here, as the string writes them.\<close>

definition MakeDay :: "int \<Rightarrow> nat \<Rightarrow> nat \<Rightarrow> int" where
  "MakeDay y m d = DayFromYear y + int (DaysBeforeMonth y m) + int d - 1"

definition MakeTime :: "nat \<Rightarrow> nat \<Rightarrow> nat \<Rightarrow> nat \<Rightarrow> int" where
  "MakeTime h mi s ms = int h * 3600000 + int mi * 60000 + int s * 1000 + int ms"

definition MakeDate :: "int \<Rightarrow> int \<Rightarrow> int" where
  "MakeDate day time = day * 86400000 + time"

text \<open>
  The milliseconds of what follows the seconds: nothing but \<^verbatim>\<open>Z\<close>, or a point, one
  digit or more, and \<^verbatim>\<open>Z\<close>. The first three digits count, a shorter fraction is
  filled with zeros.
\<close>

definition fraction_ms :: "string \<Rightarrow> nat option" where
  "fraction_ms rest =
     (if rest = ''Z'' then Some 0
      else if 3 \<le> length rest \<and> hd rest = CHR ''.'' \<and> last rest = CHR ''Z''
      then (case digits_value 0 (butlast (tl rest)) of
              None \<Rightarrow> None
            | Some _ \<Rightarrow> digits_value 0 (take 3 (butlast (tl rest) @ ''00'')))
      else None)"

definition Date_parse_utc :: "string \<Rightarrow> int option" where
  "Date_parse_utc s =
     (if length s < 20 then None
      else if s ! 4 \<noteq> CHR ''-'' \<or> s ! 7 \<noteq> CHR ''-'' \<or> s ! 10 \<noteq> CHR ''T''
              \<or> s ! 13 \<noteq> CHR '':'' \<or> s ! 16 \<noteq> CHR '':'' then None
      else (case (digits_value 0 (take 4 s), digits_value 0 (take 2 (drop 5 s)),
                  digits_value 0 (take 2 (drop 8 s)), digits_value 0 (take 2 (drop 11 s)),
                  digits_value 0 (take 2 (drop 14 s)), digits_value 0 (take 2 (drop 17 s)),
                  fraction_ms (drop 19 s)) of
              (Some y, Some m, Some d, Some h, Some mi, Some sec, Some ms) \<Rightarrow>
                if 1 \<le> m \<and> m \<le> 12 \<and> 1 \<le> d \<and> d \<le> DaysInMonth (int y) m
                   \<and> h \<le> 23 \<and> mi \<le> 59 \<and> sec \<le> 59
                then Some (MakeDate (MakeDay (int y) m d) (MakeTime h mi sec ms))
                else None
            | _ \<Rightarrow> None))"

definition new_Date :: "(string \<Rightarrow> Date) \<Rightarrow> string \<Rightarrow> Date" where
  "new_Date other_formats s =
     (case Date_parse_utc s of Some t \<Rightarrow> Some t | None \<Rightarrow> other_formats s)"

subsection \<open>Example values\<close>

text \<open>
  Values of the test suite, for the concrete instances below: a depot entry at a
  location with a version, a candidate without result, a \<open>Date_new\<close> that knows two
  time stamps, and a client whose branch lookup throws an error of a given status while
  every other request succeeds.
\<close>

abbreviation (input) example_entry :: "string \<Rightarrow> string \<Rightarrow> BaseTemplate" where
  "example_entry url v \<equiv>
     \<lparr>BaseTemplate.metadata = \<lparr>location = url\<rparr>, BaseTemplate.name = ''example'',
      BaseTemplate.py_object = ''pros.conductor.templates.base_template.BaseTemplate'',
      BaseTemplate.supported_kernels = ''4.1.2'', BaseTemplate.target = ''v5'',
      BaseTemplate.version = v\<rparr>"

abbreviation (input) example_zip :: "int \<Rightarrow> string \<Rightarrow> string \<Rightarrow> DownloadableZip" where
  "example_zip i url t \<equiv>
     \<lparr>asset_id = i, download_url = url, updated_at = t, prerelease = False, result = None\<rparr>"

abbreviation (input) example_Date_new :: "string \<Rightarrow> Date" where
  "example_Date_new \<equiv>
     map_of [(''2021-01-01T00:00:00Z'', 1609459200000), (''2021-01-02T00:00:00Z'', 1609545600000)]"

abbreviation (input) example_octokit :: "int \<Rightarrow> nat Octokit" where
  "example_octokit st \<equiv>
     (\<lambda>req w. (case req of
                  GetBranch _ _ _ \<Rightarrow> Inl \<lparr>instanceof_Error = True, status_number = Some st\<rparr>
                | CreateTree _ _ _ _ \<Rightarrow> Inr ''tree-sha''
                | CreateCommit _ _ _ _ _ \<Rightarrow> Inr ''commit-sha''
                | _ \<Rightarrow> Inr [], Suc w))"

section \<open>Properties\<close>

subsection \<open>Repository identifiers\<close>

lemma String_split_not_Nil: "String_split sep s \<noteq> []"
  by (induction s) (auto split: list.splits)

lemma String_split_hd: "hd (String_split sep s) = takeWhile (\<lambda>c. c \<noteq> sep) s"
  by (induction s) (auto split: list.splits simp: String_split_not_Nil)

lemma String_split_tl:
  "sep \<in> set s \<Longrightarrow> tl (String_split sep s) = String_split sep (tl (dropWhile (\<lambda>c. c \<noteq> sep) s))"
  by (induction s) (auto split: list.splits simp: String_split_not_Nil)

lemma Array_at_0: "xs \<noteq> [] \<Longrightarrow> Array_at xs 0 = Some (hd xs)"
  by (cases xs) (simp_all add: Array_at_def)

lemma Array_at_1: "xs \<noteq> [] \<Longrightarrow> tl xs \<noteq> [] \<Longrightarrow> Array_at xs 1 = Some (hd (tl xs))"
  by (cases xs; cases "tl xs") (simp_all add: Array_at_def)

lemma toRepositoryIdentifier_slash:
  assumes "CHR ''/'' \<in> set s"
  shows "toRepositoryIdentifier s =
        Inr \<lparr>owner = Some (takeWhile (\<lambda>c. c \<noteq> CHR ''/'') s),
             repo = Some (takeWhile (\<lambda>c. c \<noteq> CHR ''/'') (tl (dropWhile (\<lambda>c. c \<noteq> CHR ''/'') s)))\<rparr>"
proof -
  let ?parts = "String_split CHR ''/'' s"
  have t: "tl ?parts \<noteq> []"
    using assms by (simp only: String_split_tl String_split_not_Nil not_False_eq_True)
  have a0: "Array_at ?parts 0 = Some (takeWhile (\<lambda>c. c \<noteq> CHR ''/'') s)"
    by (simp only: Array_at_0 [OF String_split_not_Nil] String_split_hd)
  have a1: "Array_at ?parts 1
      = Some (takeWhile (\<lambda>c. c \<noteq> CHR ''/'') (tl (dropWhile (\<lambda>c. c \<noteq> CHR ''/'') s)))"
    using assms by (simp only: Array_at_1 [OF String_split_not_Nil t] String_split_tl String_split_hd)
  show ?thesis
    unfolding toRepositoryIdentifier_def Let_def a0 a1 using assms by simp
qed

text \<open>
  C5, as the code has it. A string without \<^verbatim>\<open>/\<close> is refused with an error. A
  string with a \<^verbatim>\<open>/\<close> gives the owner, the part before the first \<^verbatim>\<open>/\<close>, and the
  repo, the part between the first \<^verbatim>\<open>/\<close> and the second one; the repo is all that
  follows the first \<^verbatim>\<open>/\<close> when there is no second one. Either part may be empty.
\<close>

theorem toRepositoryIdentifier_spec:
  "(CHR ''/'' \<notin> set s \<longrightarrow>
      toRepositoryIdentifier s = Inl (Error (''Invalid repository name: '' @ s)))
   \<and> (CHR ''/'' \<in> set s \<longrightarrow>
      toRepositoryIdentifier s =
        Inr \<lparr>owner = Some (takeWhile (\<lambda>c. c \<noteq> CHR ''/'') s),
             repo = Some (takeWhile (\<lambda>c. c \<noteq> CHR ''/'') (tl (dropWhile (\<lambda>c. c \<noteq> CHR ''/'') s)))\<rparr>)
   \<and> (CHR ''/'' \<in> set s \<and> CHR ''/'' \<notin> set (tl (dropWhile (\<lambda>c. c \<noteq> CHR ''/'') s)) \<longrightarrow>
      toRepositoryIdentifier s =
        Inr \<lparr>owner = Some (takeWhile (\<lambda>c. c \<noteq> CHR ''/'') s),
             repo = Some (tl (dropWhile (\<lambda>c. c \<noteq> CHR ''/'') s))\<rparr>)"
proof (intro conjI impI)
  assume "CHR ''/'' \<notin> set s"
  then show "toRepositoryIdentifier s = Inl (Error (''Invalid repository name: '' @ s))"
    by (simp add: toRepositoryIdentifier_def)
next
  assume "CHR ''/'' \<in> set s"
  then show "toRepositoryIdentifier s =
        Inr \<lparr>owner = Some (takeWhile (\<lambda>c. c \<noteq> CHR ''/'') s),
             repo = Some (takeWhile (\<lambda>c. c \<noteq> CHR ''/'') (tl (dropWhile (\<lambda>c. c \<noteq> CHR ''/'') s)))\<rparr>"
    by (rule toRepositoryIdentifier_slash)
next
  assume a: "CHR ''/'' \<in> set s \<and> CHR ''/'' \<notin> set (tl (dropWhile (\<lambda>c. c \<noteq> CHR ''/'') s))"
  then have "takeWhile (\<lambda>c. c \<noteq> CHR ''/'') (tl (dropWhile (\<lambda>c. c \<noteq> CHR ''/'') s))
          = tl (dropWhile (\<lambda>c. c \<noteq> CHR ''/'') s)"
    by (intro takeWhile_eq_all_conv [THEN iffD2]) blast
  with a show "toRepositoryIdentifier s =
        Inr \<lparr>owner = Some (takeWhile (\<lambda>c. c \<noteq> CHR ''/'') s),
             repo = Some (tl (dropWhile (\<lambda>c. c \<noteq> CHR ''/'') s))\<rparr>"
    by (simp only: toRepositoryIdentifier_slash)
qed

theorem toRepositoryIdentifier_spec_witness:
  "toRepositoryIdentifier ''jerrylum/PROS-Test-Project''
     = Inr \<lparr>owner = Some ''jerrylum'', repo = Some ''PROS-Test-Project''\<rparr>
   \<and> toRepositoryIdentifier ''jerrylum/'' = Inr \<lparr>owner = Some ''jerrylum'', repo = Some ''''\<rparr>
   \<and> toRepositoryIdentifier ''/'' = Inr \<lparr>owner = Some '''', repo = Some ''''\<rparr>
   \<and> toRepositoryIdentifier ''jerrylum'' = Inl (Error ''Invalid repository name: jerrylum'')
   \<and> toRepositoryIdentifier '''' = Inl (Error ''Invalid repository name: '')"
  using toRepositoryIdentifier_spec [of "''jerrylum/PROS-Test-Project''"]
    toRepositoryIdentifier_spec [of "''jerrylum/''"]
    toRepositoryIdentifier_spec [of "''/''"]
    toRepositoryIdentifier_spec [of "''jerrylum''"]
    toRepositoryIdentifier_spec [of "''''"]
  by simp

text \<open>
  With two separators the repo is not all that follows the first one: of
  \<^verbatim>\<open>a/b/c\<close> the repo is \<^verbatim>\<open>b\<close>, not \<^verbatim>\<open>b/c\<close>.
\<close>

theorem toRepositoryIdentifier_counterexample:
  "toRepositoryIdentifier ''a/b/c'' = Inr \<lparr>owner = Some ''a'', repo = Some ''b''\<rparr>
   \<and> toRepositoryIdentifier ''a/b/c'' \<noteq> Inr \<lparr>owner = Some ''a'', repo = Some ''b/c''\<rparr>"
  by (simp add: toRepositoryIdentifier_def Array_at_def)

text \<open>
  The earlier variant in \<^verbatim>\<open>main.ts\<close> gives the same identifier for a string with
  a separator; for a string without one it throws nothing and leaves the repo undefined.
\<close>

lemma toRepositoryIdentifier_main_slash:
  "CHR ''/'' \<in> set s \<Longrightarrow> toRepositoryIdentifier s = Inr (toRepositoryIdentifier_main s)"
  by (simp add: toRepositoryIdentifier_def toRepositoryIdentifier_main_def Let_def)

lemma toRepositoryIdentifier_main_no_slash:
  "toRepositoryIdentifier_main ''jerrylum'' = \<lparr>owner = Some ''jerrylum'', repo = None\<rparr>"
  by (simp add: toRepositoryIdentifier_main_def Array_at_def)

subsection \<open>Asset extractor\<close>

lemma endsWith_iff_append: "endsWith s t \<longleftrightarrow> (\<exists>p. s = p @ t)"
proof
  assume "endsWith s t"
  then have le: "length t \<le> length s" and d: "drop (length s - length t) s = t"
    by (auto simp: endsWith_def split: if_splits)
  have "s = take (length s - length t) s @ drop (length s - length t) s"
    by simp
  with d show "\<exists>p. s = p @ t"
    by metis
next
  assume "\<exists>p. s = p @ t"
  then show "endsWith s t"
    by (auto simp: endsWith_def)
qed

text \<open>
  C7. The candidates of a release are its assets whose name ends in \<^verbatim>\<open>.zip\<close>, one
  candidate per such asset and in the order of the asset list: \<open>asset_id\<close> is the
  asset's id, \<open>download_url\<close> its \<open>browser_download_url\<close>, \<open>updated_at\<close> is copied,
  \<open>prerelease\<close> is the release's flag and \<open>result\<close> is null. Every other asset
  is dropped, and a release without assets has no candidate.
\<close>

theorem getDownloadableZips_spec:
  "length (getDownloadableZips release)
     = length (filter (\<lambda>a. \<exists>p. Asset.name a = p @ ''.zip'') (assets release))
   \<and> map asset_id (getDownloadableZips release)
     = map id_asset (filter (\<lambda>a. \<exists>p. Asset.name a = p @ ''.zip'') (assets release))
   \<and> map download_url (getDownloadableZips release)
     = map browser_download_url (filter (\<lambda>a. \<exists>p. Asset.name a = p @ ''.zip'') (assets release))
   \<and> map DownloadableZip.updated_at (getDownloadableZips release)
     = map Asset.updated_at (filter (\<lambda>a. \<exists>p. Asset.name a = p @ ''.zip'') (assets release))
   \<and> (\<forall>zip' \<in> set (getDownloadableZips release).
         DownloadableZip.prerelease zip' = Release.prerelease release \<and> result zip' = None)
   \<and> (assets release = [] \<longrightarrow> getDownloadableZips release = [])"
  by (simp add: getDownloadableZips_def endsWith_iff_append comp_def)

theorem getDownloadableZips_spec_witness:
  "getDownloadableZips \<lparr>assets = [], prerelease = False\<rparr> = []
   \<and> getDownloadableZips
       \<lparr>assets = [\<lparr>id_asset = 1, name = ''example.zip'',
                    browser_download_url = ''https://example.com/download'',
                    updated_at = ''2021-01-01T00:00:00Z''\<rparr>,
                  \<lparr>id_asset = 2, name = ''zip'',
                    browser_download_url = ''https://example.com/download'',
                    updated_at = ''2021-01-01T00:00:00Z''\<rparr>],
        prerelease = False\<rparr>
     = [example_zip 1 ''https://example.com/download'' ''2021-01-01T00:00:00Z'']"
  using getDownloadableZips_spec [of "\<lparr>assets = [], prerelease = False\<rparr>"]
    getDownloadableZips_spec
      [of "\<lparr>assets = [\<lparr>id_asset = 1, name = ''example.zip'',
                    browser_download_url = ''https://example.com/download'',
                    updated_at = ''2021-01-01T00:00:00Z''\<rparr>,
                  \<lparr>id_asset = 2, name = ''zip'',
                    browser_download_url = ''https://example.com/download'',
                    updated_at = ''2021-01-01T00:00:00Z''\<rparr>],
        prerelease = False\<rparr>"]
  by (simp add: getDownloadableZips_def endsWith_def)

subsection \<open>Include strategy\<close>

text \<open>
  C8. \<^verbatim>\<open>getIncludeStrategy\<close> returns its input for the three strings
  \<^verbatim>\<open>all\<close>, \<^verbatim>\<open>stable-only\<close> and \<^verbatim>\<open>prerelease-only\<close>, and throws an error for
  every other string, the empty string among them.
\<close>

theorem getIncludeStrategy_spec:
  "(input \<in> {''all'', ''stable-only'', ''prerelease-only''} \<longrightarrow> getIncludeStrategy input = Inr input)
   \<and> (input \<notin> {''all'', ''stable-only'', ''prerelease-only''}
        \<longrightarrow> getIncludeStrategy input = Inl (Error (''Invalid include strategy: '' @ input)))
   \<and> getIncludeStrategy [] = Inl (Error ''Invalid include strategy: '')"
  by (simp add: getIncludeStrategy_def)

theorem getIncludeStrategy_spec_witness:
  "getIncludeStrategy ''all'' = Inr ''all''
   \<and> getIncludeStrategy ''stable-only'' = Inr ''stable-only''
   \<and> getIncludeStrategy ''prerelease-only'' = Inr ''prerelease-only''
   \<and> getIncludeStrategy ''invalid'' = Inl (Error ''Invalid include strategy: invalid'')"
  using getIncludeStrategy_spec [of "''all''"] getIncludeStrategy_spec [of "''stable-only''"]
    getIncludeStrategy_spec [of "''prerelease-only''"] getIncludeStrategy_spec [of "''invalid''"]
  by simp

subsection \<open>Template converter\<close>

text \<open>
  C6. The entry made from an external template and a candidate has the name, the
  supported kernels, the target and the version of the template's \<^verbatim>\<open>py/state\<close>, and
  the candidate's download URL as its location. The template's own metadata, system
  files and user files have no part in it: replacing them changes nothing in the entry.
\<close>

theorem convertExternalTemplateToBaseTemplate_spec:
  "BaseTemplate.name (convertExternalTemplateToBaseTemplate zip' external_template)
     = PyState.name (py_state external_template)
   \<and> BaseTemplate.supported_kernels (convertExternalTemplateToBaseTemplate zip' external_template)
     = PyState.supported_kernels (py_state external_template)
   \<and> BaseTemplate.target (convertExternalTemplateToBaseTemplate zip' external_template)
     = PyState.target (py_state external_template)
   \<and> BaseTemplate.version (convertExternalTemplateToBaseTemplate zip' external_template)
     = PyState.version (py_state external_template)
   \<and> location (BaseTemplate.metadata (convertExternalTemplateToBaseTemplate zip' external_template))
     = download_url zip'
   \<and> convertExternalTemplateToBaseTemplate zip'
        (external_template\<lparr>py_state :=
           (py_state external_template)\<lparr>PyState.metadata := md, system_files := sf, user_files := uf\<rparr>\<rparr>)
     = convertExternalTemplateToBaseTemplate zip' external_template"
  by (simp add: convertExternalTemplateToBaseTemplate_def Let_def)

subsection \<open>Cache resolver\<close>

lemma digits_value_None_iff:
  "digits_value acc xs = None \<longleftrightarrow> (\<exists>c \<in> set xs. digit_value c = None)"
  by (induction xs arbitrary: acc) (auto split: option.splits)

text \<open>Digits of a fraction after the third do not change the milliseconds.\<close>

lemma fraction_ms_truncates:
  assumes "length ds = 3" and "digits_value 0 ds \<noteq> None" and "digits_value 0 extra \<noteq> None"
  shows "fraction_ms (CHR ''.'' # ds @ extra @ ''Z'') = fraction_ms (CHR ''.'' # ds @ ''Z'')"
proof -
  have all: "digits_value 0 (ds @ extra) \<noteq> None"
    using assms(2,3) by (auto simp: digits_value_None_iff)
  have b1: "butlast (ds @ extra @ ''Z'') = ds @ extra"
    by (simp add: butlast_append)
  have b2: "butlast (ds @ ''Z'') = ds"
    by (simp add: butlast_append)
  have ne: "CHR ''.'' # ds @ extra @ ''Z'' \<noteq> ''Z''" "CHR ''.'' # ds @ ''Z'' \<noteq> ''Z''"
    by simp_all
  show ?thesis
    using assms(1,2) all
    unfolding fraction_ms_def
    by (simp only: ne if_False list.sel b1 b2) (auto split: option.splits)
qed

lemma Date_parse_utc_rest:
  assumes "length p = 19" and "fraction_ms r = fraction_ms r'" and "r \<noteq> []" and "r' \<noteq> []"
  shows "Date_parse_utc (p @ r) = Date_parse_utc (p @ r')"
  using assms
  by (simp add: Date_parse_utc_def nth_append)

lemma Date_parse_utc_truncates:
  assumes "length p = 19" and "length ds = 3"
    and "digits_value 0 ds \<noteq> None" and "digits_value 0 extra \<noteq> None"
  shows "Date_parse_utc (p @ CHR ''.'' # ds @ extra @ ''Z'')
       = Date_parse_utc (p @ CHR ''.'' # ds @ ''Z'')"
  by (rule Date_parse_utc_rest [OF assms(1) fraction_ms_truncates [OF assms(2,3,4)]]) simp_all

text \<open>
  C3, as the code has it. The comparison of a candidate with the depot's time stamp is
  strict, and it compares time values, which count whole milliseconds. A candidate whose
  time value is \<open>depot_last_updated\<close> is not newer, and its result is the entry of the
  previous depot at its download URL, or null when there is none. A candidate whose time
  value is strictly later gets the result null, whatever the previous depot holds. A
  candidate whose \<open>updated_at\<close> is later than the depot's time stamp by digits after the
  milliseconds only has the depot's time value: it is not newer, and gets the previous
  entry.
\<close>

theorem applyPreviousResult_strict:
  "(Date_new (DownloadableZip.updated_at zip') = depot_last_updated \<longrightarrow>
      \<not> hasBeenUpdatedAfter Date_new zip' depot_last_updated
      \<and> result (applyPreviousResult Date_new zip' depot_map depot_last_updated)
          = Map_get depot_map (download_url zip'))
   \<and> (\<forall>a b. Date_new (DownloadableZip.updated_at zip') = Some a \<and> depot_last_updated = Some b \<and> b < a \<longrightarrow>
         hasBeenUpdatedAfter Date_new zip' depot_last_updated
         \<and> result (applyPreviousResult Date_new zip' depot_map depot_last_updated) = None)
   \<and> (\<forall>p ds extra t.
         length p = 19 \<and> length ds = 3
         \<and> digits_value 0 ds \<noteq> None \<and> digits_value 0 extra \<noteq> None
         \<and> DownloadableZip.updated_at zip' = p @ CHR ''.'' # ds @ extra @ ''Z''
         \<and> Date_parse_utc (p @ CHR ''.'' # ds @ ''Z'') = Some t
         \<and> depot_last_updated = Some t \<longrightarrow>
         \<not> hasBeenUpdatedAfter (new_Date other_formats) zip' depot_last_updated
         \<and> result (applyPreviousResult (new_Date other_formats) zip' depot_map depot_last_updated)
             = Map_get depot_map (download_url zip'))"
proof (intro conjI allI impI)
  assume "Date_new (DownloadableZip.updated_at zip') = depot_last_updated"
  then have "\<not> Date_gt (Date_new (DownloadableZip.updated_at zip')) depot_last_updated"
    by (cases depot_last_updated) auto
  then show "\<not> hasBeenUpdatedAfter Date_new zip' depot_last_updated"
    and "result (applyPreviousResult Date_new zip' depot_map depot_last_updated)
          = Map_get depot_map (download_url zip')"
    by (simp_all add: applyPreviousResult_def hasBeenUpdatedAfter_def getPreviousResult_def)
next
  fix a b
  assume "Date_new (DownloadableZip.updated_at zip') = Some a \<and> depot_last_updated = Some b \<and> b < a"
  then show "hasBeenUpdatedAfter Date_new zip' depot_last_updated"
    and "result (applyPreviousResult Date_new zip' depot_map depot_last_updated) = None"
    by (simp_all add: applyPreviousResult_def hasBeenUpdatedAfter_def)
next
  fix p ds extra t
  assume h: "length p = 19 \<and> length ds = 3
         \<and> digits_value 0 ds \<noteq> None \<and> digits_value 0 extra \<noteq> None
         \<and> DownloadableZip.updated_at zip' = p @ CHR ''.'' # ds @ extra @ ''Z''
         \<and> Date_parse_utc (p @ CHR ''.'' # ds @ ''Z'') = Some t
         \<and> depot_last_updated = Some t"
  then have "Date_parse_utc (DownloadableZip.updated_at zip') = Some t"
    by (simp add: Date_parse_utc_truncates)
  with h have "\<not> Date_gt (new_Date other_formats (DownloadableZip.updated_at zip')) depot_last_updated"
    by (simp add: new_Date_def)
  then show "\<not> hasBeenUpdatedAfter (new_Date other_formats) zip' depot_last_updated"
    and "result (applyPreviousResult (new_Date other_formats) zip' depot_map depot_last_updated)
          = Map_get depot_map (download_url zip')"
    by (simp_all add: applyPreviousResult_def hasBeenUpdatedAfter_def getPreviousResult_def)
qed

theorem applyPreviousResult_strict_witness:
  "result (applyPreviousResult (new_Date (\<lambda>s. None))
             (example_zip 1 ''https://example.com/download'' ''2021-01-01T00:00:00Z'')
             [(''https://example.com/download'', example_entry ''https://example.com/download'' ''1.0.0'')]
             (Some 1609459200000))
     = Some (example_entry ''https://example.com/download'' ''1.0.0'')
   \<and> result (applyPreviousResult (new_Date (\<lambda>s. None))
             (example_zip 1 ''https://example.com/download'' ''2021-01-01T00:00:00.001Z'')
             [(''https://example.com/download'', example_entry ''https://example.com/download'' ''1.0.0'')]
             (Some 1609459200000))
     = None
   \<and> result (applyPreviousResult (new_Date (\<lambda>s. None))
             (example_zip 1 ''https://example.com/download'' ''2021-01-01T00:00:00.000999Z'')
             [(''https://example.com/download'', example_entry ''https://example.com/download'' ''1.0.0'')]
             (Some 1609459200000))
     = Some (example_entry ''https://example.com/download'' ''1.0.0'')"
proof -
  let ?m = "[(''https://example.com/download'', example_entry ''https://example.com/download'' ''1.0.0'')]"
  have same: "new_Date (\<lambda>s. None) ''2021-01-01T00:00:00Z'' = Some 1609459200000"
    by code_simp
  have later: "new_Date (\<lambda>s. None) ''2021-01-01T00:00:00.001Z'' = Some 1609459200001"
    by code_simp
  have whole: "Date_parse_utc ''2021-01-01T00:00:00.000Z'' = Some 1609459200000"
    by code_simp
  have digits: "digits_value 0 ''000'' \<noteq> None \<and> digits_value 0 ''999'' \<noteq> None"
    by code_simp
  have w1: "result (applyPreviousResult (new_Date (\<lambda>s. None))
             (example_zip 1 ''https://example.com/download'' ''2021-01-01T00:00:00Z'') ?m
             (Some 1609459200000))
     = Some (example_entry ''https://example.com/download'' ''1.0.0'')"
    using applyPreviousResult_strict [of "new_Date (\<lambda>s. None)"
            "example_zip 1 ''https://example.com/download'' ''2021-01-01T00:00:00Z''"
            "Some 1609459200000" ?m, THEN conjunct1]
    by (simp add: same Map_get_def)
  have w2: "result (applyPreviousResult (new_Date (\<lambda>s. None))
             (example_zip 1 ''https://example.com/download'' ''2021-01-01T00:00:00.001Z'') ?m
             (Some 1609459200000))
     = None"
    using applyPreviousResult_strict [of "new_Date (\<lambda>s. None)"
            "example_zip 1 ''https://example.com/download'' ''2021-01-01T00:00:00.001Z''"
            "Some 1609459200000" ?m,
            THEN conjunct2, THEN conjunct1, rule_format, of 1609459200001 1609459200000]
    by (simp add: later)
  have w3: "result (applyPreviousResult (new_Date (\<lambda>s. None))
             (example_zip 1 ''https://example.com/download'' ''2021-01-01T00:00:00.000999Z'') ?m
             (Some 1609459200000))
     = Some (example_entry ''https://example.com/download'' ''1.0.0'')"
    using applyPreviousResult_strict [of "new_Date (\<lambda>s. None)"
            "example_zip 1 ''https://example.com/download'' ''2021-01-01T00:00:00.000999Z''"
            "Some 1609459200000" ?m "\<lambda>s. None",
            THEN conjunct2, THEN conjunct2, rule_format,
            of "''2021-01-01T00:00:00''" "''000''" "''999''" 1609459200000]
      whole digits
    by (simp add: Map_get_def)
  from w1 w2 w3 show ?thesis
    by (intro conjI)
qed

text \<open>
  A candidate updated one microsecond after the depot has the depot's time value, and
  keeps the previous entry: its result is not null.
\<close>

theorem applyPreviousResult_microsecond_counterexample:
  "new_Date (\<lambda>s. None) ''2021-01-01T00:00:00Z'' = Some 1609459200000
   \<and> new_Date (\<lambda>s. None) ''2021-01-01T00:00:00.000001Z'' = Some 1609459200000
   \<and> result (applyPreviousResult (new_Date (\<lambda>s. None))
             (example_zip 1 ''https://example.com/download'' ''2021-01-01T00:00:00.000001Z'')
             [(''https://example.com/download'', example_entry ''https://example.com/download'' ''1.0.0'')]
             (new_Date (\<lambda>s. None) ''2021-01-01T00:00:00Z''))
     = Some (example_entry ''https://example.com/download'' ''1.0.0'')
   \<and> result (applyPreviousResult (new_Date (\<lambda>s. None))
             (example_zip 1 ''https://example.com/download'' ''2021-01-01T00:00:00.000001Z'')
             [(''https://example.com/download'', example_entry ''https://example.com/download'' ''1.0.0'')]
             (new_Date (\<lambda>s. None) ''2021-01-01T00:00:00Z''))
     \<noteq> None"
proof -
  have depot: "new_Date (\<lambda>s. None) ''2021-01-01T00:00:00Z'' = Some 1609459200000"
    by code_simp
  have candidate: "new_Date (\<lambda>s. None) ''2021-01-01T00:00:00.000001Z'' = Some 1609459200000"
    by code_simp
  show ?thesis
    by (simp add: depot candidate applyPreviousResult_def hasBeenUpdatedAfter_def
         getPreviousResult_def Map_get_def)
qed

text \<open>The same holds whatever the constructor does with strings of other forms.\<close>

lemma applyPreviousResult_microsecond_any_other_formats:
  "result (applyPreviousResult (new_Date other_formats)
             (example_zip 1 ''https://example.com/download'' ''2021-01-01T00:00:00.000001Z'')
             [(''https://example.com/download'', example_entry ''https://example.com/download'' ''1.0.0'')]
             (new_Date other_formats ''2021-01-01T00:00:00Z''))
     = Some (example_entry ''https://example.com/download'' ''1.0.0'')"
proof -
  have depot: "Date_parse_utc ''2021-01-01T00:00:00Z'' = Some 1609459200000"
    by code_simp
  have candidate: "Date_parse_utc ''2021-01-01T00:00:00.000001Z'' = Some 1609459200000"
    by code_simp
  show ?thesis
    by (simp add: new_Date_def depot candidate applyPreviousResult_def hasBeenUpdatedAfter_def
         getPreviousResult_def Map_get_def)
qed

text \<open>
  C9. Applying the previous result twice, with the same map and the same time stamp,
  gives the candidate that applying it once gives.
\<close>

theorem applyPreviousResult_idempotent:
  "applyPreviousResult Date_new (applyPreviousResult Date_new zip' depot_map depot_last_updated)
      depot_map depot_last_updated
   = applyPreviousResult Date_new zip' depot_map depot_last_updated"
  by (simp add: applyPreviousResult_def hasBeenUpdatedAfter_def getPreviousResult_def)

subsection \<open>The candidates of a run\<close>

text \<open>
  When no depot file was read, the second filter of \<^verbatim>\<open>run\<close> drops nothing: the
  candidates are those the include strategy keeps.
\<close>

lemma run_zips_no_file:
  "run_zips Date_new parseDepot include_strategy None releases =
     map (\<lambda>zip'. applyPreviousResult Date_new zip'
                   (Map_new (map (\<lambda>item. (location (BaseTemplate.metadata item), item))
                      (case parseDepot ''[]'' of None \<Rightarrow> [] | Some depot \<Rightarrow> depot)))
                   (Some 0))
       (filter (\<lambda>zip'. shouldIncludeZip zip' include_strategy)
          (concat (map getDownloadableZips releases)))"
  by (simp add: run_zips_def)

text \<open>
  C1, at an input where the code departs from it. The depot file was read, it is empty
  and was last modified on 2021-01-01. The release has two zips, neither with a previous
  result: \<^verbatim>\<open>old.zip\<close>, updated at the depot's time stamp, and \<^verbatim>\<open>new.zip\<close>,
  updated a day later. The run keeps \<^verbatim>\<open>old.zip\<close> with a null result, so it is
  fetched again, and drops \<^verbatim>\<open>new.zip\<close> before any fetch.
\<close>

theorem run_zips_keeps_older_drops_newer:
  "run_zips example_Date_new (\<lambda>content'. Some []) ''all''
     (Some \<lparr>sha = ''abc'', content = ''[]'', last_modified = Some 1609459200000\<rparr>)
     [\<lparr>assets = [\<lparr>id_asset = 1, name = ''old.zip'',
                   browser_download_url = ''https://example.com/old.zip'',
                   updated_at = ''2021-01-01T00:00:00Z''\<rparr>,
                 \<lparr>id_asset = 2, name = ''new.zip'',
                   browser_download_url = ''https://example.com/new.zip'',
                   updated_at = ''2021-01-02T00:00:00Z''\<rparr>],
       prerelease = False\<rparr>]
   = [example_zip 1 ''https://example.com/old.zip'' ''2021-01-01T00:00:00Z'']"
  by (simp add: run_zips_def getDownloadableZips_def endsWith_def shouldIncludeZip_def
       hasBeenUpdatedAfter_def getPreviousResult_def applyPreviousResult_def
       Map_new_def Map_get_def)

subsection \<open>Commit message\<close>

text \<open>
  What \<^verbatim>\<open>getCommitMessage\<close> returns: the release message, with the version of the
  first entry of the new depot, when the counts are one added, none updated and none
  removed; the general message in every other case.
\<close>

lemma getCommitMessage_cases:
  "getCommitMessage old_depot new_depot =
     Inr (if getCommitMessage_counts old_depot new_depot = (1, 0, 0)
          then ''Release version '' @ BaseTemplate.version (hd new_depot)
          else ''Update one or more version(s)'')"
proof (cases new_depot)
  case Nil
  then show ?thesis
    by (simp add: getCommitMessage_def getCommitMessage_counts_def)
next
  case (Cons first rest)
  then show ?thesis
    by (simp add: getCommitMessage_def Array_at_def split: prod.splits)
qed

text \<open>
  The counts, for depots whose entries have distinct locations. The loop leaves in the
  map the old entries whose location is not in the new depot, counts the new entries
  without an old entry at their location, and those that differ from it.
\<close>

lemma getCommitMessage_loop_distinct:
  "distinct (map (\<lambda>n. location (BaseTemplate.metadata n)) new_depot) \<Longrightarrow>
   getCommitMessage_loop new_depot (m, a, u) =
     (filter (\<lambda>(k, v). k \<notin> (\<lambda>n. location (BaseTemplate.metadata n)) ` set new_depot) m,
      a + length (filter (\<lambda>n. map_of m (location (BaseTemplate.metadata n)) = None) new_depot),
      u + length (filter (\<lambda>n. \<exists>old_item. map_of m (location (BaseTemplate.metadata n)) = Some old_item
                                       \<and> old_item \<noteq> n) new_depot))"
proof (induction new_depot arbitrary: m a u)
  case Nil
  then show ?case by simp
next
  case (Cons n rest)
  let ?l = "location (BaseTemplate.metadata n)"
  have d: "distinct (map (\<lambda>n. location (BaseTemplate.metadata n)) rest)"
    and notin: "?l \<notin> (\<lambda>n. location (BaseTemplate.metadata n)) ` set rest"
    using Cons.prems by auto
  have look: "\<And>x. x \<in> set rest \<Longrightarrow>
      map_of (AList.delete ?l m) (location (BaseTemplate.metadata x)) = map_of m (location (BaseTemplate.metadata x))"
  proof -
    fix x
    assume "x \<in> set rest"
    with notin have "location (BaseTemplate.metadata x) \<noteq> ?l"
      by (metis imageI)
    then show "map_of (AList.delete ?l m) (location (BaseTemplate.metadata x))
        = map_of m (location (BaseTemplate.metadata x))"
      by (simp add: delete_conv')
  qed
  have f1: "filter (\<lambda>x. map_of (AList.delete ?l m) (location (BaseTemplate.metadata x)) = None) rest
          = filter (\<lambda>x. map_of m (location (BaseTemplate.metadata x)) = None) rest"
    by (rule filter_cong) (auto simp: look)
  have f2: "filter (\<lambda>x. \<exists>old_item. map_of (AList.delete ?l m) (location (BaseTemplate.metadata x)) = Some old_item \<and> old_item \<noteq> x) rest
          = filter (\<lambda>x. \<exists>old_item. map_of m (location (BaseTemplate.metadata x)) = Some old_item \<and> old_item \<noteq> x) rest"
    by (rule filter_cong) (auto simp: look)
  have f3: "filter (\<lambda>(k, v). k \<notin> (\<lambda>n. location (BaseTemplate.metadata n)) ` set rest) (AList.delete ?l m)
          = filter (\<lambda>(k, v). k \<notin> (\<lambda>n. location (BaseTemplate.metadata n)) ` set (n # rest)) m"
    by (induction m) (auto simp: AList.delete_eq)
  show ?case
    by (cases "map_of m ?l")
       (simp_all add: Cons.IH [OF d] Map_get_def Map_delete_def f1 f2 f3 Let_def)
qed

lemma update_fresh: "k \<notin> fst ` set m \<Longrightarrow> AList.update k v m = m @ [(k, v)]"
  by (induction m) auto

lemma foldl_update_distinct:
  "distinct (map fst entries) \<Longrightarrow> fst ` set m \<inter> fst ` set entries = {} \<Longrightarrow>
   foldl (\<lambda>m (k, v). AList.update k v m) m entries = m @ entries"
proof (induction entries arbitrary: m)
  case Nil
  then show ?case by simp
next
  case (Cons e entries)
  obtain k v where e: "e = (k, v)" by (cases e)
  have fresh: "k \<notin> fst ` set m"
    using Cons.prems(2) e by auto
  have "fst ` set (m @ [(k, v)]) \<inter> fst ` set entries = {}"
    using Cons.prems e by auto
  with Cons.IH [of "m @ [(k, v)]"] Cons.prems(1) e fresh show ?case
    by (simp add: update_fresh)
qed

lemma Map_new_distinct: "distinct (map fst entries) \<Longrightarrow> Map_new entries = entries"
  using foldl_update_distinct [of entries "[]"] by (simp add: Map_new_def)

lemma getCommitMessage_counts_distinct:
  assumes old: "distinct (map (\<lambda>item. location (BaseTemplate.metadata item)) old_depot)"
    and new: "distinct (map (\<lambda>item. location (BaseTemplate.metadata item)) new_depot)"
  shows "getCommitMessage_counts old_depot new_depot =
     (length (filter (\<lambda>n. location (BaseTemplate.metadata n)
                 \<notin> (\<lambda>item. location (BaseTemplate.metadata item)) ` set old_depot) new_depot),
      length (filter (\<lambda>n. \<exists>old_item \<in> set old_depot.
                 location (BaseTemplate.metadata old_item) = location (BaseTemplate.metadata n)
                 \<and> old_item \<noteq> n) new_depot),
      length (filter (\<lambda>old_item. location (BaseTemplate.metadata old_item)
                 \<notin> (\<lambda>item. location (BaseTemplate.metadata item)) ` set new_depot) old_depot))"
proof -
  let ?loc = "\<lambda>item. location (BaseTemplate.metadata item)"
  let ?m = "map (\<lambda>item. (?loc item, item)) old_depot"
  have m: "Map_new ?m = ?m"
    using old by (simp add: Map_new_distinct comp_def)
  have none: "\<And>l. map_of ?m l = None \<longleftrightarrow> l \<notin> ?loc ` set old_depot"
    by (simp add: map_of_eq_None_iff image_image)
  have some: "\<And>l v. map_of ?m l = Some v \<longleftrightarrow> v \<in> set old_depot \<and> ?loc v = l"
  proof -
    fix l v
    have "distinct (map fst ?m)"
      using old by (simp add: comp_def)
    then have "map_of ?m l = Some v \<longleftrightarrow> (l, v) \<in> set ?m"
      by simp
    then show "map_of ?m l = Some v \<longleftrightarrow> v \<in> set old_depot \<and> ?loc v = l"
      by auto
  qed
  have u: "filter (\<lambda>n. \<exists>old_item. map_of ?m (?loc n) = Some old_item \<and> old_item \<noteq> n) new_depot
      = filter (\<lambda>n. \<exists>old_item \<in> set old_depot. ?loc old_item = ?loc n \<and> old_item \<noteq> n) new_depot"
    by (rule filter_cong) (auto simp: some)
  show ?thesis
    unfolding getCommitMessage_counts_def Let_def m getCommitMessage_loop_distinct [OF new]
    by (simp add: none u Map_size_def filter_map comp_def)
qed

text \<open>
  The earlier variant in \<^verbatim>\<open>main.ts\<close> names the added entry's version, and has no
  general message but one with a number in it.
\<close>

lemma getCommitMessage_main_examples:
  "getCommitMessage_main [] [] = Inr ''Update 0 version(s)''"
  "getCommitMessage_main [example_entry ''https://example.com/download1'' ''1.0.0''] []
     = Inr ''Update -1 version(s)''"
  "getCommitMessage_main
      [example_entry ''https://example.com/download1'' ''1.0.0'']
      [example_entry ''https://example.com/download1'' ''1.0.0'',
       example_entry ''https://example.com/download2'' ''2.0.0''] = Inr ''Release version 2.0.0''"
  by (simp_all add: getCommitMessage_main_def Array_at_def Number_toString_def nat_toString.simps)

text \<open>
  C2, at an input where the code departs from it. The old depot has one entry, of
  version 1.0.0; the new depot has that entry and, after it, an entry at a new location,
  of version 2.0.0. One entry is added, none is updated or removed, and the message
  names the version of the first entry of the new depot, not of the added one.
\<close>

theorem getCommitMessage_first_entry_not_added_entry:
  "getCommitMessage_counts
      [example_entry ''https://example.com/download1'' ''1.0.0'']
      [example_entry ''https://example.com/download1'' ''1.0.0'',
       example_entry ''https://example.com/download2'' ''2.0.0''] = (1, 0, 0)
   \<and> getCommitMessage
      [example_entry ''https://example.com/download1'' ''1.0.0'']
      [example_entry ''https://example.com/download1'' ''1.0.0'',
       example_entry ''https://example.com/download2'' ''2.0.0''] = Inr ''Release version 1.0.0''"
  by (simp add: getCommitMessage_def getCommitMessage_counts_def Map_new_def Map_get_def
       Map_delete_def Map_size_def Array_at_def)

text \<open>
  C10. When one entry is added and none is updated or removed, the new depot is not
  empty, so that reading its first entry is in range; and for every pair of depots
  \<^verbatim>\<open>getCommitMessage\<close> returns a string and throws nothing.
\<close>

theorem getCommitMessage_total:
  "(getCommitMessage_counts old_depot new_depot = (1, 0, 0) \<longrightarrow>
      new_depot \<noteq> [] \<and> Array_at new_depot 0 = Some (hd new_depot))
   \<and> (\<exists>message. getCommitMessage old_depot new_depot = Inr message)"
proof (cases new_depot)
  case Nil
  then show ?thesis
    by (simp add: getCommitMessage_def getCommitMessage_counts_def)
next
  case (Cons first rest)
  then show ?thesis
    by (simp add: getCommitMessage_def Array_at_def split: prod.splits)
qed

theorem getCommitMessage_total_witness:
  "getCommitMessage_counts [] [example_entry ''https://example.com/download1'' ''1.0.0''] = (1, 0, 0)
   \<and> getCommitMessage [] [example_entry ''https://example.com/download1'' ''1.0.0'']
       = Inr ''Release version 1.0.0''
   \<and> getCommitMessage [] [] = Inr ''Update one or more version(s)''"
  using getCommitMessage_total [of "[]" "[example_entry ''https://example.com/download1'' ''1.0.0'']"]
    getCommitMessage_total [of "[]" "[]"]
  by (simp add: getCommitMessage_def getCommitMessage_counts_def Map_new_def Map_get_def
       Map_delete_def Map_size_def Array_at_def)

subsection \<open>Publish protocol\<close>

text \<open>
  C4. Let the branch lookup throw. If what it throws is not a not-found error (an
  \<^verbatim>\<open>Error\<close> of status 404), \<^verbatim>\<open>pushFile\<close> returns false and has sent the lookup
  only. If it is one, \<^verbatim>\<open>pushFile\<close> next creates a tree that holds the one file; when
  that succeeds, a commit of that tree with no parents; when that succeeds, the reference
  \<^verbatim>\<open>refs/heads/\<close> of the branch at that commit. It returns true when the reference
  was created, and false with nothing more sent as soon as one of the three throws.
\<close>

theorem pushFile_branch_check:
  assumes "octokit (GetBranch (owner rid) (repo rid) branch) w = (Inl error, w1)"
  shows "(\<not> is_not_found error \<longrightarrow>
            pushFile octokit base64_encode rid branch path content' commit_message old_sha w
              = ((False, [GetBranch (owner rid) (repo rid) branch]), w1))
       \<and> (is_not_found error \<longrightarrow>
            (\<forall>e w2. octokit (CreateTree (owner rid) (repo rid) None
                               [Tree_entry path ''100644'' ''blob'' content']) w1 = (Inl e, w2) \<longrightarrow>
               pushFile octokit base64_encode rid branch path content' commit_message old_sha w
                 = ((False, [GetBranch (owner rid) (repo rid) branch,
                             CreateTree (owner rid) (repo rid) None
                               [Tree_entry path ''100644'' ''blob'' content']]), w2)))
       \<and> (is_not_found error \<longrightarrow>
            (\<forall>treeSHA w2 e w3.
               octokit (CreateTree (owner rid) (repo rid) None
                          [Tree_entry path ''100644'' ''blob'' content']) w1 = (Inr treeSHA, w2)
               \<and> octokit (CreateCommit (owner rid) (repo rid) commit_message treeSHA []) w2
                   = (Inl e, w3) \<longrightarrow>
               pushFile octokit base64_encode rid branch path content' commit_message old_sha w
                 = ((False, [GetBranch (owner rid) (repo rid) branch,
                             CreateTree (owner rid) (repo rid) None
                               [Tree_entry path ''100644'' ''blob'' content'],
                             CreateCommit (owner rid) (repo rid) commit_message treeSHA []]), w3)))
       \<and> (is_not_found error \<longrightarrow>
            (\<forall>treeSHA w2 newCommit w3 response w4.
               octokit (CreateTree (owner rid) (repo rid) None
                          [Tree_entry path ''100644'' ''blob'' content']) w1 = (Inr treeSHA, w2)
               \<and> octokit (CreateCommit (owner rid) (repo rid) commit_message treeSHA []) w2
                   = (Inr newCommit, w3)
               \<and> octokit (CreateRef (owner rid) (repo rid) (''refs/heads/'' @ branch) newCommit) w3
                   = (response, w4) \<longrightarrow>
               pushFile octokit base64_encode rid branch path content' commit_message old_sha w
                 = ((\<not> isl response,
                     [GetBranch (owner rid) (repo rid) branch,
                      CreateTree (owner rid) (repo rid) None
                        [Tree_entry path ''100644'' ''blob'' content'],
                      CreateCommit (owner rid) (repo rid) commit_message treeSHA [],
                      CreateRef (owner rid) (repo rid) (''refs/heads/'' @ branch) newCommit]), w4)))"
  using assms
  by (auto simp: pushFile_def pushFile_catch_def Let_def split: sum.splits)

theorem pushFile_branch_check_witness:
  "pushFile (example_octokit 404) (\<lambda>s. s) \<lparr>owner = Some ''jerrylum'', repo = Some ''depot-test''\<rparr>
      ''depot'' ''depot.json'' ''[]'' ''Release version 1.0.0'' None 0
     = ((True, [GetBranch (Some ''jerrylum'') (Some ''depot-test'') ''depot'',
                CreateTree (Some ''jerrylum'') (Some ''depot-test'') None
                  [Tree_entry ''depot.json'' ''100644'' ''blob'' ''[]''],
                CreateCommit (Some ''jerrylum'') (Some ''depot-test'') ''Release version 1.0.0''
                  ''tree-sha'' [],
                CreateRef (Some ''jerrylum'') (Some ''depot-test'') ''refs/heads/depot''
                  ''commit-sha'']), 4)
   \<and> pushFile (example_octokit 500) (\<lambda>s. s) \<lparr>owner = Some ''jerrylum'', repo = Some ''depot-test''\<rparr>
      ''depot'' ''depot.json'' ''[]'' ''Release version 1.0.0'' None 0
     = ((False, [GetBranch (Some ''jerrylum'') (Some ''depot-test'') ''depot'']), 1)"
proof -
  have found: "example_octokit 404
        (GetBranch (owner \<lparr>owner = Some ''jerrylum'', repo = Some ''depot-test''\<rparr>)
           (repo \<lparr>owner = Some ''jerrylum'', repo = Some ''depot-test''\<rparr>) ''depot'') 0
      = (Inl \<lparr>instanceof_Error = True, status_number = Some 404\<rparr>, 1)"
    by simp
  have failed: "example_octokit 500
        (GetBranch (owner \<lparr>owner = Some ''jerrylum'', repo = Some ''depot-test''\<rparr>)
           (repo \<lparr>owner = Some ''jerrylum'', repo = Some ''depot-test''\<rparr>) ''depot'') 0
      = (Inl \<lparr>instanceof_Error = True, status_number = Some 500\<rparr>, 1)"
    by simp
  show ?thesis
    using pushFile_branch_check [where octokit = "example_octokit 404" and w = 0
            and rid = "\<lparr>owner = Some ''jerrylum'', repo = Some ''depot-test''\<rparr>"
            and branch = "''depot''" and base64_encode = "\<lambda>s. s" and path = "''depot.json''"
            and content' = "''[]''" and commit_message = "''Release version 1.0.0''"
            and old_sha = None, OF found]
          pushFile_branch_check [where octokit = "example_octokit 500" and w = 0
            and rid = "\<lparr>owner = Some ''jerrylum'', repo = Some ''depot-test''\<rparr>"
            and branch = "''depot''" and base64_encode = "\<lambda>s. s" and path = "''depot.json''"
            and content' = "''[]''" and commit_message = "''Release version 1.0.0''"
            and old_sha = None, OF failed]
    by (simp add: is_not_found_def numeral_eq_Suc)
qed

end
